theory Spec2Isabelle
  imports Main "HOL-Library.AList" "HOL-Library.Word"
begin

section \<open>The host boundary\<close>

text \<open>
  \<^verbatim>\<open>posacs-module.c\<close> is written against two interfaces that are not part of the
  repository: the Emacs module interface of \<^verbatim>\<open>emacs-module.h\<close> (the function pointers
  reached through \<^verbatim>\<open>env->\<close>) and the C library (\<^verbatim>\<open>malloc\<close>, \<^verbatim>\<open>free\<close>, \<^verbatim>\<open>strlen\<close>,
  \<^verbatim>\<open>getenv\<close>, \<^verbatim>\<open>setenv\<close>, \<^verbatim>\<open>unsetenv\<close>). This section models both as functions on
  an explicit state; the sections after it translate the C file function by function.
\<close>

subsection \<open>Host values\<close>

text \<open>
  The three module functions, as the values a C function pointer of the table in
  \<^verbatim>\<open>emacs_module_init\<close> can take.
\<close>

datatype fptr = Posacs_getenv | Posacs_setenv | Posacs_unsetenv

text \<open>
  An \<^verbatim>\<open>emacs_value\<close> is an opaque handle. \<open>NULL_value\<close> is the null handle that the
  host's value-returning functions give back while a non-local exit is pending. A host
  string is the sequence of bytes that \<^verbatim>\<open>copy_string_contents\<close> writes for it; it may
  contain the byte 0. A module function value keeps what \<^verbatim>\<open>make_function\<close> was given:
  the two arities, the C function pointer and the documentation pointer (\<open>None\<close> is a
  null pointer).
\<close>

datatype emacs_value =
    NULL_value
  | Lisp_symbol string
  | Lisp_string string
  | Lisp_integer int
  | Lisp_cons emacs_value emacs_value
  | Lisp_function int int "fptr option" "string option"

definition is_string :: "emacs_value \<Rightarrow> bool" where
  "is_string v = (case v of Lisp_string _ \<Rightarrow> True | _ \<Rightarrow> False)"

subsection \<open>The state\<close>

text \<open>
  \<open>environ\<close> is the process environment as the C library holds it: the list of
  its entries, strings of the form \<^verbatim>\<open>name=value\<close>, searched from the front. \<open>heap\<close> holds the blocks that \<^verbatim>\<open>malloc\<close> has handed out and \<^verbatim>\<open>free\<close> has
  not yet taken back, each with its address and its bytes; \<open>next_addr\<close> is the address
  of the block allocated next. \<open>malloc_plan\<close> and \<open>setenv_plan\<close> decide which of the coming
  calls of \<^verbatim>\<open>malloc\<close> and \<^verbatim>\<open>setenv\<close> run out of memory (\<open>False\<close>); a call beyond the end
  of the plan finds memory. \<open>pending\<close> is the host's pending non-local exit, a symbol and
  its data. \<open>fdefs\<close> is the host's global function namespace.
\<close>

record world =
  environ :: "string list"
  heap :: "(nat \<times> string) list"
  next_addr :: nat
  malloc_plan :: "bool list"
  setenv_plan :: "bool list"
  pending :: "(emacs_value \<times> emacs_value) option"
  fdefs :: "(string \<times> emacs_value) list"

definition next_ok :: "bool list \<Rightarrow> bool" where
  "next_ok plan = (case plan of [] \<Rightarrow> True | b # _ \<Rightarrow> b)"

subsection \<open>C strings\<close>

definition NUL :: char where
  "NUL = CHR 0x00"

text \<open>The C string that starts at the first byte of \<open>bs\<close>: the bytes before the first 0.\<close>

definition c_str :: "string \<Rightarrow> string" where
  "c_str bs = takeWhile (\<lambda>c. c \<noteq> NUL) bs"

definition strlen :: "string \<Rightarrow> nat" where
  "strlen bs = length (c_str bs)"

text \<open>
  The C string read through a \<^verbatim>\<open>char *\<close> that points to a block of the heap. A pointer
  to no live block is never read by the module; the model reads the empty string there.
\<close>

definition deref :: "nat \<Rightarrow> world \<Rightarrow> string" where
  "deref p s = (case map_of (heap s) p of None \<Rightarrow> [] | Some bs \<Rightarrow> c_str bs)"

subsection \<open>The allocator\<close>

text \<open>
  \<^verbatim>\<open>malloc\<close> returns \<open>None\<close> (the null pointer) when the plan says so, and the address
  of a new block of \<open>sz\<close> bytes otherwise. \<^verbatim>\<open>free\<close> removes the block.
\<close>

definition malloc :: "nat \<Rightarrow> world \<Rightarrow> nat option \<times> world" where
  "malloc sz s =
     (if next_ok (malloc_plan s)
      then (Some (next_addr s),
            s\<lparr>heap := (next_addr s, replicate sz NUL) # heap s,
              next_addr := Suc (next_addr s),
              malloc_plan := tl (malloc_plan s)\<rparr>)
      else (None, s\<lparr>malloc_plan := tl (malloc_plan s)\<rparr>))"

definition free :: "nat \<Rightarrow> world \<Rightarrow> world" where
  "free p s = s\<lparr>heap := AList.delete p (heap s)\<rparr>"

subsection \<open>The POSIX environment functions\<close>

text \<open>
  The three functions as the GNU C library implements them. All three read their
  arguments as C strings, and all three find the entries of a name the same way: an
  entry belongs to \<open>nm\<close> when it starts with the bytes of \<open>nm\<close> followed by \<open>=\<close>
  (\<^verbatim>\<open>strncmp (name, *ep, len) == 0 && (*ep)[len] == '='\<close>).
\<close>

definition entry_matches :: "string \<Rightarrow> string \<Rightarrow> bool" where
  "entry_matches nm e = (take (Suc (length nm)) e = nm @ [CHR ''=''])"

text \<open>
  The search of \<^verbatim>\<open>getenv\<close>: the first entry that belongs to the name gives the value,
  the bytes after the \<open>=\<close>. The search does not ask whether the name is one that
  \<^verbatim>\<open>setenv\<close> would accept: for the name \<^verbatim>\<open>A=B\<close> the entry \<^verbatim>\<open>A=B=c\<close>, which is the
  variable \<^verbatim>\<open>A\<close> with the value \<^verbatim>\<open>B=c\<close>, gives \<^verbatim>\<open>c\<close>. For the empty name
  \<^verbatim>\<open>getenv\<close> returns the null pointer without searching.
\<close>

fun env_search :: "string \<Rightarrow> string list \<Rightarrow> string option" where
  "env_search nm [] = None"
| "env_search nm (e # es) =
     (if entry_matches nm e then Some (drop (Suc (length nm)) e) else env_search nm es)"

definition env_value :: "string list \<Rightarrow> string \<Rightarrow> string option" where
  "env_value env nm = (if nm = [] then None else env_search nm env)"

definition getenv :: "nat \<Rightarrow> world \<Rightarrow> string option" where
  "getenv name s = env_value (environ s) (deref name s)"

text \<open>
  \<^verbatim>\<open>setenv\<close> fails (returns -1) for an empty name, for a name that contains \<open>=\<close>, and
  when it finds no memory. Otherwise it puts the new entry in the place of the first
  entry that belongs to the name, unless \<open>overwrite\<close> is 0, or at the end when there is
  none. \<^verbatim>\<open>unsetenv\<close> fails for the same names and otherwise removes every entry that
  belongs to the name.
\<close>

definition valid_name :: "string \<Rightarrow> bool" where
  "valid_name nm = (nm \<noteq> [] \<and> CHR ''='' \<notin> set nm)"

fun env_store :: "string \<Rightarrow> string \<Rightarrow> string list \<Rightarrow> string list" where
  "env_store nm v [] = [nm @ [CHR ''=''] @ v]"
| "env_store nm v (e # es) =
     (if entry_matches nm e then (nm @ [CHR ''=''] @ v) # es else e # env_store nm v es)"

definition setenv :: "nat \<Rightarrow> nat \<Rightarrow> int \<Rightarrow> world \<Rightarrow> int \<times> world" where
  "setenv name val overwrite s =
     (if \<not> valid_name (deref name s) then (- 1, s)
      else if overwrite = 0 \<and> env_search (deref name s) (environ s) \<noteq> None then (0, s)
      else if \<not> next_ok (setenv_plan s) then (- 1, s\<lparr>setenv_plan := tl (setenv_plan s)\<rparr>)
      else (0, s\<lparr>environ := env_store (deref name s) (deref val s) (environ s),
                 setenv_plan := tl (setenv_plan s)\<rparr>))"

definition unsetenv :: "nat \<Rightarrow> world \<Rightarrow> int \<times> world" where
  "unsetenv name s =
     (if \<not> valid_name (deref name s) then (- 1, s)
      else (0, s\<lparr>environ := filter (\<lambda>e. \<not> entry_matches (deref name s) e) (environ s)\<rparr>))"

text \<open>
  The name of the variable that an entry holds is the part before its first \<open>=\<close>; a
  name is the name of a variable when some entry holds it.
\<close>

definition entry_name :: "string \<Rightarrow> string" where
  "entry_name e = takeWhile (\<lambda>c. c \<noteq> CHR ''='') e"

definition names_variable :: "string list \<Rightarrow> string \<Rightarrow> bool" where
  "names_variable env nm = list_ex (\<lambda>e. CHR ''='' \<in> set e \<and> entry_name e = nm) env"

subsection \<open>The functions of the module interface\<close>

text \<open>
  Every function of the interface does nothing and reports failure while a non-local
  exit is pending. \<^verbatim>\<open>eq\<close> compares handles; the module compares symbols only, and the
  model knows the identity of symbols only.
\<close>

definition env_intern :: "string \<Rightarrow> world \<Rightarrow> emacs_value" where
  "env_intern nm s = (if pending s = None then Lisp_symbol nm else NULL_value)"

definition env_type_of :: "emacs_value \<Rightarrow> world \<Rightarrow> emacs_value" where
  "env_type_of v s =
     (if pending s \<noteq> None then NULL_value
      else case v of
          NULL_value \<Rightarrow> NULL_value
        | Lisp_symbol _ \<Rightarrow> Lisp_symbol ''symbol''
        | Lisp_string _ \<Rightarrow> Lisp_symbol ''string''
        | Lisp_integer _ \<Rightarrow> Lisp_symbol ''integer''
        | Lisp_cons _ _ \<Rightarrow> Lisp_symbol ''cons''
        | Lisp_function _ _ _ _ \<Rightarrow> Lisp_symbol ''module-function'')"

definition env_eq :: "emacs_value \<Rightarrow> emacs_value \<Rightarrow> world \<Rightarrow> bool" where
  "env_eq a b s =
     (pending s = None \<and>
      (case (a, b) of (Lisp_symbol x, Lisp_symbol y) \<Rightarrow> x = y | _ \<Rightarrow> False))"

definition env_make_string :: "string \<Rightarrow> nat \<Rightarrow> world \<Rightarrow> emacs_value" where
  "env_make_string bs len s =
     (if pending s = None then Lisp_string (take len bs) else NULL_value)"

definition env_non_local_exit_signal :: "emacs_value \<Rightarrow> emacs_value \<Rightarrow> world \<Rightarrow> world" where
  "env_non_local_exit_signal symbol data s =
     (if pending s = None then s\<lparr>pending := Some (symbol, data)\<rparr> else s)"

text \<open>
  When a module function returns with a non-local exit pending, the host takes the exit
  and raises it as a condition of its own; the next call of a module function starts
  with none pending.
\<close>

definition host_takes_exit :: "world \<Rightarrow> world" where
  "host_takes_exit s = s\<lparr>pending := None\<rparr>"

text \<open>
  \<^verbatim>\<open>copy_string_contents (env, val, buf, &size)\<close> returns whether it succeeded, and the
  new value of \<^verbatim>\<open>size\<close>. With a null buffer it stores the number of bytes needed, one more
  than the string has, for the closing 0. With a buffer it stores the bytes and the
  closing 0, or signals \<^verbatim>\<open>args-out-of-range\<close> when \<^verbatim>\<open>size\<close> is too small. A value that is
  not a string signals \<^verbatim>\<open>wrong-type-argument\<close>.
\<close>

definition env_copy_string_contents ::
  "emacs_value \<Rightarrow> nat option \<Rightarrow> nat \<Rightarrow> world \<Rightarrow> bool \<times> nat \<times> world" where
  "env_copy_string_contents val buf sz s =
     (if pending s \<noteq> None then (False, sz, s)
      else case val of
          Lisp_string bs \<Rightarrow>
            (case buf of
               None \<Rightarrow> (True, length bs + 1, s)
             | Some p \<Rightarrow>
                 if sz < length bs + 1
                 then (False, length bs + 1,
                       env_non_local_exit_signal (Lisp_symbol ''args-out-of-range'')
                         (Lisp_symbol ''nil'') s)
                 else (True, length bs + 1,
                       s\<lparr>heap := AList.update p (bs @ [NUL]) (heap s)\<rparr>))
        | _ \<Rightarrow>
            (False, sz,
             env_non_local_exit_signal (Lisp_symbol ''wrong-type-argument'')
               (Lisp_cons (Lisp_symbol ''stringp'') (Lisp_cons val (Lisp_symbol ''nil''))) s))"

text \<open>
  \<^verbatim>\<open>make_function\<close> wraps a C function with its arities and its documentation; it
  signals \<^verbatim>\<open>invalid-arity\<close> unless the least arity is not negative and the greatest is
  not below it or is \<^verbatim>\<open>emacs_variadic_function\<close> (-2). The module always passes a null
  data pointer, which the model leaves out.
  \<^verbatim>\<open>funcall\<close> is modelled for the one function the module calls, \<^verbatim>\<open>fset\<close>, which
  stores its second argument as the function definition of the symbol that is its first
  argument and returns it; calling anything else signals \<^verbatim>\<open>void-function\<close>.
\<close>

definition env_make_function ::
  "int \<Rightarrow> int \<Rightarrow> fptr option \<Rightarrow> string option \<Rightarrow> world \<Rightarrow> emacs_value \<times> world" where
  "env_make_function mn mx f doc s =
     (if pending s \<noteq> None then (NULL_value, s)
      else if 0 \<le> mn \<and> (if mx < 0 then mx = - 2 else mn \<le> mx)
      then (Lisp_function mn mx f doc, s)
      else (NULL_value,
            env_non_local_exit_signal (Lisp_symbol ''invalid-arity'')
              (Lisp_cons (Lisp_integer mn) (Lisp_integer mx)) s))"

definition env_funcall ::
  "emacs_value \<Rightarrow> int \<Rightarrow> (nat \<Rightarrow> emacs_value) \<Rightarrow> world \<Rightarrow> emacs_value \<times> world" where
  "env_funcall f nargs args s =
     (if pending s \<noteq> None then (NULL_value, s)
      else case (f, args 0) of
          (Lisp_symbol fname, Lisp_symbol nm) \<Rightarrow>
            if fname = ''fset'' \<and> nargs = 2
            then (args 1, s\<lparr>fdefs := AList.update nm (args 1) (fdefs s)\<rparr>)
            else (NULL_value, env_non_local_exit_signal (Lisp_symbol ''void-function'') f s)
        | _ \<Rightarrow> (NULL_value, env_non_local_exit_signal (Lisp_symbol ''void-function'') f s))"

section \<open>The macros of posacs-module.c\<close>

definition LISP_IS_STRING :: "emacs_value \<Rightarrow> world \<Rightarrow> bool" where
  "LISP_IS_STRING val s = env_eq (env_type_of val s) (env_intern ''string'' s) s"

definition LISP_NIL :: "world \<Rightarrow> emacs_value" where
  "LISP_NIL s = env_intern ''nil'' s"

definition LISP_T :: "world \<Rightarrow> emacs_value" where
  "LISP_T s = env_intern ''t'' s"

definition LISP_SYM :: "string \<Rightarrow> world \<Rightarrow> emacs_value" where
  "LISP_SYM x s = env_intern x s"

definition LISP_STR :: "string \<Rightarrow> world \<Rightarrow> emacs_value" where
  "LISP_STR x s = env_make_string x (strlen x) s"

section \<open>string_from_lisp\<close>

text \<open>
  The result is the \<^verbatim>\<open>char *\<close>: \<open>None\<close> is the null pointer, \<open>Some str\<close> the address of
  the buffer, which then belongs to the caller.
\<close>

definition string_from_lisp :: "emacs_value \<Rightarrow> world \<Rightarrow> nat option \<times> world" where
  "string_from_lisp val s =
     (case env_copy_string_contents val None 0 s of
        (ok1, sz, s1) \<Rightarrow>
          if \<not> ok1 then (None, s1)
          else
            (case malloc sz s1 of
               (None, s2) \<Rightarrow>
                 (None,
                  env_non_local_exit_signal (env_intern ''memory-full'' s2) (LISP_NIL s2) s2)
             | (Some str, s2) \<Rightarrow>
                 (case env_copy_string_contents val (Some str) sz s2 of
                    (ok2, sz', s3) \<Rightarrow>
                      if \<not> ok2 then (None, free str s3)
                      else (Some str, s3))))"

section \<open>The three module functions\<close>

text \<open>
  Each takes the argument count \<open>n\<close>, the argument array \<open>args\<close> (a C pointer, read at
  index 0 and 1, so a function from indices) and the data pointer \<open>ptr\<close>.

  In each, the C code declares \<^verbatim>\<open>char *var = NULL\<close> at the top, and declares a second
  \<^verbatim>\<open>var\<close> inside the \<^verbatim>\<open>if\<close>, which receives the buffer; the closing
  \<^verbatim>\<open>if (var) free (var)\<close> is outside that block and reads the first one. The model
  keeps the two apart as \<open>var\<close> and \<open>var_inner\<close> (and \<open>val\<close>, \<open>val_inner\<close>).
\<close>

definition posacs_getenv ::
  "int \<Rightarrow> (nat \<Rightarrow> emacs_value) \<Rightarrow> nat \<Rightarrow> world \<Rightarrow> emacs_value \<times> world" where
  "posacs_getenv n args ptr s =
     (let var = (None :: nat option);
          ret = LISP_NIL s;
          (ret, s1) =
            (if LISP_IS_STRING (args 0) s then
               (case string_from_lisp (args 0) s of
                  (None, s1) \<Rightarrow> (ret, s1)
                | (Some var_inner, s1) \<Rightarrow>
                    (case getenv var_inner s1 of
                       None \<Rightarrow> (ret, s1)
                     | Some val \<Rightarrow> (LISP_STR val s1, s1)))
             else (ret, s));
          s2 = (case var of None \<Rightarrow> s1 | Some p \<Rightarrow> free p s1)
      in (ret, s2))"

definition posacs_setenv ::
  "int \<Rightarrow> (nat \<Rightarrow> emacs_value) \<Rightarrow> nat \<Rightarrow> world \<Rightarrow> emacs_value \<times> world" where
  "posacs_setenv n args ptr s =
     (let var = (None :: nat option);
          val = (None :: nat option);
          ret = LISP_NIL s;
          (ret, s1) =
            (if LISP_IS_STRING (args 0) s then
               (case string_from_lisp (args 0) s of
                  (None, s1) \<Rightarrow> (ret, s1)
                | (Some var_inner, s1) \<Rightarrow>
                    if LISP_IS_STRING (args 1) s1 then
                      (case string_from_lisp (args 1) s1 of
                         (None, s2) \<Rightarrow> (ret, s2)
                       | (Some val_inner, s2) \<Rightarrow>
                           (case setenv var_inner val_inner 1 s2 of
                              (rc, s3) \<Rightarrow>
                                if rc = 0 then (LISP_T s3, s3) else (ret, s3)))
                    else (ret, s1))
             else (ret, s));
          s2 = (case var of None \<Rightarrow> s1 | Some p \<Rightarrow> free p s1);
          s3 = (case val of None \<Rightarrow> s2 | Some p \<Rightarrow> free p s2)
      in (ret, s3))"

definition posacs_unsetenv ::
  "int \<Rightarrow> (nat \<Rightarrow> emacs_value) \<Rightarrow> nat \<Rightarrow> world \<Rightarrow> emacs_value \<times> world" where
  "posacs_unsetenv n args ptr s =
     (let var = (None :: nat option);
          ret = LISP_NIL s;
          (ret, s1) =
            (if LISP_IS_STRING (args 0) s then
               (case string_from_lisp (args 0) s of
                  (None, s1) \<Rightarrow> (ret, s1)
                | (Some var_inner, s1) \<Rightarrow>
                    (case unsetenv var_inner s1 of
                       (rc, s2) \<Rightarrow>
                         if rc = 0 then (LISP_T s2, s2) else (ret, s2)))
             else (ret, s));
          s2 = (case var of None \<Rightarrow> s1 | Some p \<Rightarrow> free p s1)
      in (ret, s2))"

section \<open>Registration\<close>

definition bind_func ::
  "string \<Rightarrow> int \<Rightarrow> int \<Rightarrow> fptr option \<Rightarrow> string option \<Rightarrow> world \<Rightarrow> world" where
  "bind_func name mn mx function docstring s =
     (let fset = LISP_SYM ''fset'' s;
          args = (\<lambda>i. NULL_value);
          args = args(0 := LISP_SYM name s);
          (made, s1) = env_make_function mn mx function docstring s;
          args = args(1 := made)
      in snd (env_funcall fset 2 args s1))"

text \<open>
  \<^verbatim>\<open>struct fun\<close>; a null \<^verbatim>\<open>name\<close>, \<^verbatim>\<open>function\<close> or \<^verbatim>\<open>docstring\<close> is \<open>None\<close>. The
  field \<^verbatim>\<open>function\<close> is \<open>func\<close> here.
\<close>

record func_entry =
  name :: "string option"
  min_arity :: int
  max_arity :: int
  func :: "fptr option"
  docstring :: "string option"

definition funcs :: "func_entry list" where
  "funcs =
     [\<lparr>name = Some ''posacs--getenv'', min_arity = 1, max_arity = 1,
       func = Some Posacs_getenv, docstring = Some ''getenv internal''\<rparr>,
      \<lparr>name = Some ''posacs--setenv'', min_arity = 2, max_arity = 2,
       func = Some Posacs_setenv, docstring = Some ''setenv internal''\<rparr>,
      \<lparr>name = Some ''posacs--unsetenv'', min_arity = 1, max_arity = 1,
       func = Some Posacs_unsetenv, docstring = Some ''unsetenv internal''\<rparr>,
      \<lparr>name = None, min_arity = 0, max_arity = 0, func = None, docstring = None\<rparr>]"

text \<open>
  The \<^verbatim>\<open>for\<close> loop of \<^verbatim>\<open>emacs_module_init\<close>; the list is the part of the table
  from the current index on. The loop stops at the first entry whose name is null. The
  table ends with such an entry, so the loop never reads beyond it.
\<close>

fun bind_loop :: "func_entry list \<Rightarrow> world \<Rightarrow> world" where
  "bind_loop [] s = s"
| "bind_loop (f # fs) s =
     (case name f of
        None \<Rightarrow> s
      | Some nm \<Rightarrow>
          bind_loop fs (bind_func nm (min_arity f) (max_arity f) (func f) (docstring f) s))"

text \<open>
  \<^verbatim>\<open>struct emacs_runtime\<close> and \<^verbatim>\<open>emacs_env\<close>, as far as the module reads them. The
  \<^verbatim>\<open>size\<close> fields are \<^verbatim>\<open>ptrdiff_t\<close>; the code casts them to \<^verbatim>\<open>size_t\<close> before it
  compares, so they are 64-bit words compared without sign. The two \<^verbatim>\<open>sizeof\<close> values
  come from \<^verbatim>\<open>emacs-module.h\<close> and are parameters.
\<close>

record emacs_env =
  env_size :: "64 word"

record emacs_runtime =
  rt_size :: "64 word"
  get_environment :: emacs_env

definition emacs_module_init ::
  "64 word \<Rightarrow> 64 word \<Rightarrow> emacs_runtime \<Rightarrow> world \<Rightarrow> int \<times> world" where
  "emacs_module_init sizeof_runtime sizeof_env runtime s =
     (if rt_size runtime < sizeof_runtime then (1, s)
      else
        let env = get_environment runtime in
        if env_size env < sizeof_env then (2, s)
        else (0, bind_loop funcs s))"

section \<open>Raised conditions\<close>

text \<open>
  The one condition the module raises itself, as the host holds it: the symbol
  \<^verbatim>\<open>memory-full\<close> with \<^verbatim>\<open>nil\<close> as data.
\<close>

definition memory_full :: "(emacs_value \<times> emacs_value) option" where
  "memory_full = Some (Lisp_symbol ''memory-full'', Lisp_symbol ''nil'')"

section \<open>Calls\<close>

text \<open>
  The argument array the host passes to a function of arity one, and of arity two. The
  host checks the arity before it calls, so the slots after the arguments are never
  read; they hold the null handle here.
\<close>

definition args1 :: "emacs_value \<Rightarrow> nat \<Rightarrow> emacs_value" where
  "args1 a = (\<lambda>i. NULL_value)(0 := a)"

definition args2 :: "emacs_value \<Rightarrow> emacs_value \<Rightarrow> nat \<Rightarrow> emacs_value" where
  "args2 a b = (\<lambda>i. NULL_value)(0 := a, 1 := b)"

text \<open>
  A process with one environment variable, nothing allocated, memory for every request
  and no exit pending.
\<close>

definition world0 :: world where
  "world0 =
     \<lparr>environ = [''HOME=/root''], heap = [], next_addr = 1, malloc_plan = [],
      setenv_plan = [], pending = None, fdefs = []\<rparr>"

section \<open>Facts about the host boundary\<close>

lemma LISP_IS_STRING_iff:
  "LISP_IS_STRING v s = (pending s = None \<and> is_string v)"
  by (cases v)
    (simp_all add: LISP_IS_STRING_def env_eq_def env_type_of_def env_intern_def is_string_def)

lemma is_string_iff: "is_string v = (\<exists>bs. v = Lisp_string bs)"
  by (cases v) (simp_all add: is_string_def)

lemma LISP_NIL_idle: "pending s = None \<Longrightarrow> LISP_NIL s = Lisp_symbol ''nil''"
  by (simp add: LISP_NIL_def env_intern_def)

lemma LISP_T_idle: "pending s = None \<Longrightarrow> LISP_T s = Lisp_symbol ''t''"
  by (simp add: LISP_T_def env_intern_def)

lemma c_str_append_NUL: "c_str (bs @ [NUL]) = c_str bs"
  by (induction bs) (simp_all add: c_str_def)

lemma c_str_no_NUL: "NUL \<notin> set bs \<Longrightarrow> c_str bs = bs"
  by (induction bs) (auto simp: c_str_def)

lemma c_str_idem: "c_str (c_str bs) = c_str bs"
  by (simp add: c_str_def)

lemma take_strlen: "take (strlen bs) bs = c_str bs"
  by (simp add: strlen_def c_str_def takeWhile_eq_take [symmetric])

lemma LISP_STR_idle: "pending s = None \<Longrightarrow> LISP_STR x s = Lisp_string (c_str x)"
  by (simp add: LISP_STR_def env_make_string_def take_strlen)

section \<open>Facts about string_from_lisp\<close>

lemma string_from_lisp_ok:
  "pending s = None \<Longrightarrow> next_ok (malloc_plan s) \<Longrightarrow>
   string_from_lisp (Lisp_string bs) s =
     (Some (next_addr s),
      s\<lparr>heap := (next_addr s, bs @ [NUL]) # heap s,
        next_addr := Suc (next_addr s),
        malloc_plan := tl (malloc_plan s)\<rparr>)"
  by (simp add: string_from_lisp_def env_copy_string_contents_def malloc_def)

lemma string_from_lisp_nomem:
  "pending s = None \<Longrightarrow> \<not> next_ok (malloc_plan s) \<Longrightarrow>
   string_from_lisp (Lisp_string bs) s =
     (None,
      s\<lparr>malloc_plan := tl (malloc_plan s),
        pending := Some (Lisp_symbol ''memory-full'', Lisp_symbol ''nil'')\<rparr>)"
  by (simp add: string_from_lisp_def env_copy_string_contents_def malloc_def
      env_non_local_exit_signal_def env_intern_def LISP_NIL_def)

section \<open>The paths through the three module functions\<close>

lemma posacs_getenv_pending:
  "pending s \<noteq> None \<Longrightarrow> posacs_getenv n args ptr s = (NULL_value, s)"
  by (auto simp: posacs_getenv_def LISP_IS_STRING_iff LISP_NIL_def env_intern_def)

lemma posacs_getenv_not_string:
  "pending s = None \<Longrightarrow> \<not> is_string (args 0) \<Longrightarrow>
   posacs_getenv n args ptr s = (Lisp_symbol ''nil'', s)"
  by (simp add: posacs_getenv_def LISP_IS_STRING_iff LISP_NIL_idle)

lemma posacs_getenv_string:
  "pending s = None \<Longrightarrow> next_ok (malloc_plan s) \<Longrightarrow> args 0 = Lisp_string k \<Longrightarrow>
   posacs_getenv n args ptr s =
     ((case env_value (environ s) (c_str k) of
         None \<Rightarrow> Lisp_symbol ''nil''
       | Some v \<Rightarrow> Lisp_string (c_str v)),
      s\<lparr>heap := (next_addr s, k @ [NUL]) # heap s,
        next_addr := Suc (next_addr s),
        malloc_plan := tl (malloc_plan s)\<rparr>)"
  by (simp add: posacs_getenv_def LISP_IS_STRING_iff is_string_def string_from_lisp_ok
      getenv_def deref_def c_str_append_NUL LISP_NIL_idle LISP_STR_idle split: option.splits)

lemma posacs_getenv_nomem:
  "pending s = None \<Longrightarrow> \<not> next_ok (malloc_plan s) \<Longrightarrow> args 0 = Lisp_string k \<Longrightarrow>
   posacs_getenv n args ptr s =
     (Lisp_symbol ''nil'',
      s\<lparr>malloc_plan := tl (malloc_plan s),
        pending := Some (Lisp_symbol ''memory-full'', Lisp_symbol ''nil'')\<rparr>)"
  by (simp add: posacs_getenv_def LISP_IS_STRING_iff is_string_def string_from_lisp_nomem
      LISP_NIL_idle)

lemma posacs_unsetenv_pending:
  "pending s \<noteq> None \<Longrightarrow> posacs_unsetenv n args ptr s = (NULL_value, s)"
  by (auto simp: posacs_unsetenv_def LISP_IS_STRING_iff LISP_NIL_def env_intern_def)


lemma posacs_unsetenv_string:
  "pending s = None \<Longrightarrow> next_ok (malloc_plan s) \<Longrightarrow> args 0 = Lisp_string k \<Longrightarrow>
   posacs_unsetenv n args ptr s =
     (if valid_name (c_str k)
      then (Lisp_symbol ''t'',
            s\<lparr>heap := (next_addr s, k @ [NUL]) # heap s,
              next_addr := Suc (next_addr s),
              malloc_plan := tl (malloc_plan s),
              environ := filter (\<lambda>e. \<not> entry_matches (c_str k) e) (environ s)\<rparr>)
      else (Lisp_symbol ''nil'',
            s\<lparr>heap := (next_addr s, k @ [NUL]) # heap s,
              next_addr := Suc (next_addr s),
              malloc_plan := tl (malloc_plan s)\<rparr>))"
  by (simp add: posacs_unsetenv_def LISP_IS_STRING_iff is_string_def string_from_lisp_ok
      unsetenv_def deref_def c_str_append_NUL LISP_NIL_idle LISP_T_idle)

lemma posacs_unsetenv_nomem:
  "pending s = None \<Longrightarrow> \<not> next_ok (malloc_plan s) \<Longrightarrow> args 0 = Lisp_string k \<Longrightarrow>
   posacs_unsetenv n args ptr s =
     (Lisp_symbol ''nil'',
      s\<lparr>malloc_plan := tl (malloc_plan s),
        pending := Some (Lisp_symbol ''memory-full'', Lisp_symbol ''nil'')\<rparr>)"
  by (simp add: posacs_unsetenv_def LISP_IS_STRING_iff is_string_def string_from_lisp_nomem
      LISP_NIL_idle)

lemma posacs_setenv_pending:
  "pending s \<noteq> None \<Longrightarrow> posacs_setenv n args ptr s = (NULL_value, s)"
  by (auto simp: posacs_setenv_def LISP_IS_STRING_iff LISP_NIL_def env_intern_def)

lemma posacs_setenv_not_string:
  "pending s = None \<Longrightarrow> \<not> is_string (args 0) \<Longrightarrow>
   posacs_setenv n args ptr s = (Lisp_symbol ''nil'', s)"
  by (simp add: posacs_setenv_def LISP_IS_STRING_iff LISP_NIL_idle)

lemma posacs_setenv_nomem:
  "pending s = None \<Longrightarrow> \<not> next_ok (malloc_plan s) \<Longrightarrow> args 0 = Lisp_string k \<Longrightarrow>
   posacs_setenv n args ptr s =
     (Lisp_symbol ''nil'',
      s\<lparr>malloc_plan := tl (malloc_plan s),
        pending := Some (Lisp_symbol ''memory-full'', Lisp_symbol ''nil'')\<rparr>)"
  by (simp add: posacs_setenv_def LISP_IS_STRING_iff is_string_def string_from_lisp_nomem
      LISP_NIL_idle)

lemma posacs_setenv_second_not_string:
  "pending s = None \<Longrightarrow> next_ok (malloc_plan s) \<Longrightarrow> args 0 = Lisp_string k \<Longrightarrow>
   \<not> is_string (args 1) \<Longrightarrow>
   posacs_setenv n args ptr s =
     (Lisp_symbol ''nil'',
      s\<lparr>heap := (next_addr s, k @ [NUL]) # heap s,
        next_addr := Suc (next_addr s),
        malloc_plan := tl (malloc_plan s)\<rparr>)"
  by (simp add: posacs_setenv_def LISP_IS_STRING_iff is_string_def string_from_lisp_ok
      LISP_NIL_idle)

lemma posacs_setenv_second_nomem:
  "pending s = None \<Longrightarrow> next_ok (malloc_plan s) \<Longrightarrow> args 0 = Lisp_string k \<Longrightarrow>
   args 1 = Lisp_string v \<Longrightarrow> \<not> next_ok (tl (malloc_plan s)) \<Longrightarrow>
   posacs_setenv n args ptr s =
     (Lisp_symbol ''nil'',
      s\<lparr>heap := (next_addr s, k @ [NUL]) # heap s,
        next_addr := Suc (next_addr s),
        malloc_plan := tl (tl (malloc_plan s)),
        pending := Some (Lisp_symbol ''memory-full'', Lisp_symbol ''nil'')\<rparr>)"
  by (simp add: posacs_setenv_def LISP_IS_STRING_iff is_string_def string_from_lisp_ok
      string_from_lisp_nomem LISP_NIL_idle)

lemma posacs_setenv_strings:
  "pending s = None \<Longrightarrow> next_ok (malloc_plan s) \<Longrightarrow> args 0 = Lisp_string k \<Longrightarrow>
   args 1 = Lisp_string v \<Longrightarrow> next_ok (tl (malloc_plan s)) \<Longrightarrow>
   posacs_setenv n args ptr s =
     (if \<not> valid_name (c_str k)
      then (Lisp_symbol ''nil'',
            s\<lparr>heap := (Suc (next_addr s), v @ [NUL]) # (next_addr s, k @ [NUL]) # heap s,
              next_addr := Suc (Suc (next_addr s)),
              malloc_plan := tl (tl (malloc_plan s))\<rparr>)
      else if \<not> next_ok (setenv_plan s)
      then (Lisp_symbol ''nil'',
            s\<lparr>heap := (Suc (next_addr s), v @ [NUL]) # (next_addr s, k @ [NUL]) # heap s,
              next_addr := Suc (Suc (next_addr s)),
              malloc_plan := tl (tl (malloc_plan s)),
              setenv_plan := tl (setenv_plan s)\<rparr>)
      else (Lisp_symbol ''t'',
            s\<lparr>heap := (Suc (next_addr s), v @ [NUL]) # (next_addr s, k @ [NUL]) # heap s,
              next_addr := Suc (Suc (next_addr s)),
              malloc_plan := tl (tl (malloc_plan s)),
              environ := env_store (c_str k) (c_str v) (environ s),
              setenv_plan := tl (setenv_plan s)\<rparr>))"
  by (simp add: posacs_setenv_def LISP_IS_STRING_iff is_string_def string_from_lisp_ok
      setenv_def deref_def c_str_append_NUL LISP_NIL_idle LISP_T_idle)

section \<open>Facts about plans, environments and successful calls\<close>

lemma next_ok_False_in: "\<not> next_ok p \<Longrightarrow> False \<in> set p"
  by (cases p) (simp_all add: next_ok_def)

lemma next_ok_tl_False_in: "\<not> next_ok (tl p) \<Longrightarrow> False \<in> set p"
  by (cases p) (auto simp: next_ok_def split: list.splits)

lemma c_str_no_NUL_inside: "NUL \<notin> set (c_str bs)"
  by (auto simp: c_str_def dest: set_takeWhileD)

text \<open>What \<^verbatim>\<open>setenv\<close> stores is what \<^verbatim>\<open>getenv\<close> finds, whatever was there.\<close>

lemma env_search_store: "env_search nm (env_store nm v env) = Some v"
  by (induction env) (simp_all add: entry_matches_def)

lemma env_value_store: "nm \<noteq> [] \<Longrightarrow> env_value (env_store nm v env) nm = Some v"
  by (simp add: env_value_def env_search_store)

text \<open>What \<^verbatim>\<open>unsetenv\<close> leaves holds nothing for the name.\<close>

lemma env_search_removed:
  "env_search nm (filter (\<lambda>e. \<not> entry_matches nm e) env) = None"
  by (induction env) simp_all

text \<open>
  For a name without \<open>=\<close>, the entries that belong to it are the entries that hold
  the variable of that name.
\<close>

lemma entry_matches_name:
  assumes "entry_matches nm e" and "CHR ''='' \<notin> set nm"
  shows "CHR ''='' \<in> set e \<and> entry_name e = nm"
proof -
  from assms(1) have "e = (nm @ [CHR ''='']) @ drop (Suc (length nm)) e"
    unfolding entry_matches_def by (metis append_take_drop_id)
  then obtain r where e: "e = nm @ CHR ''='' # r"
    by simp
  with assms(2) show ?thesis
    by (auto simp: entry_name_def takeWhile_tail)
qed

lemma env_search_unnamed:
  "CHR ''='' \<notin> set nm \<Longrightarrow> \<not> names_variable env nm \<Longrightarrow> env_search nm env = None"
  by (induction env) (auto simp: names_variable_def dest: entry_matches_name)

lemma posacs_setenv_t:
  assumes "posacs_setenv n args ptr s = (Lisp_symbol ''t'', s')"
    and "args 0 = Lisp_string k" and "args 1 = Lisp_string v"
  shows "pending s' = None \<and> valid_name (c_str k) \<and>
         environ s' = env_store (c_str k) (c_str v) (environ s) \<and>
         malloc_plan s' = tl (tl (malloc_plan s))"
proof -
  have idle: "pending s = None"
  proof (rule ccontr)
    assume "pending s \<noteq> None"
    from posacs_setenv_pending [OF this, of n args ptr] assms(1) show False by simp
  qed
  have ok1: "next_ok (malloc_plan s)"
    using assms(1,2) idle posacs_setenv_nomem [of s args k n ptr] by auto
  have ok2: "next_ok (tl (malloc_plan s))"
    using assms idle ok1 posacs_setenv_second_nomem [of s args k v n ptr] by auto
  show ?thesis
    using assms(1) idle posacs_setenv_strings [OF idle ok1 assms(2,3) ok2, of n ptr]
    by (auto split: if_splits)
qed

lemma getenv_after_binding:
  assumes "pending s = None" and "next_ok (malloc_plan s)" and "args 0 = Lisp_string k"
    and "env_value (environ s) (c_str k) = Some (c_str v)"
  shows "fst (posacs_getenv n args ptr s) = Lisp_string (c_str v)"
  using assms by (simp add: posacs_getenv_string c_str_idem)

text \<open>The definitions that evaluate a call on a concrete state.\<close>

lemmas eval_defs =
  world0_def args1_def args2_def next_ok_def NUL_def c_str_def strlen_def deref_def
  malloc_def free_def valid_name_def entry_matches_def env_value_def getenv_def
  setenv_def unsetenv_def entry_name_def names_variable_def
  env_intern_def env_type_of_def env_eq_def env_make_string_def
  env_non_local_exit_signal_def host_takes_exit_def env_copy_string_contents_def
  env_make_function_def env_funcall_def bind_func_def funcs_def emacs_module_init_def
  LISP_IS_STRING_def LISP_NIL_def LISP_T_def
  LISP_SYM_def LISP_STR_def string_from_lisp_def posacs_getenv_def posacs_setenv_def
  posacs_unsetenv_def is_string_def

section \<open>Buffers\<close>

text \<open>
  C1. The specification says that every buffer that a call of the three functions gets
  from \<^verbatim>\<open>string_from_lisp\<close> is freed before the call returns. The code does not do
  that: the closing \<^verbatim>\<open>if (var) free (var)\<close> reads the outer \<^verbatim>\<open>var\<close>, which is
  still null, so the buffer is live when the call returns. Starting from an empty heap,
  \<^verbatim>\<open>posacs--getenv\<close> and \<^verbatim>\<open>posacs--unsetenv\<close> leave one block behind and
  \<^verbatim>\<open>posacs--setenv\<close> leaves two.
\<close>

theorem module_functions_leave_buffers:
  "heap world0 = [] \<and>
   heap (snd (posacs_getenv 1 (args1 (Lisp_string ''HOME'')) 0 world0)) =
     [(1, ''HOME'' @ [NUL])] \<and>
   heap (snd (posacs_setenv 2 (args2 (Lisp_string ''FOO'') (Lisp_string ''bar'')) 0 world0)) =
     [(2, ''bar'' @ [NUL]), (1, ''FOO'' @ [NUL])] \<and>
   heap (snd (posacs_unsetenv 1 (args1 (Lisp_string ''HOME'')) 0 world0)) =
     [(1, ''HOME'' @ [NUL])]"
  by (simp add: eval_defs)

section \<open>Setting and reading a variable\<close>

text \<open>
  C2, as amended. When \<^verbatim>\<open>posacs--setenv\<close> with the strings \<open>k\<close> and \<open>v\<close> returns
  \<^verbatim>\<open>t\<close>, and the following \<^verbatim>\<open>posacs--getenv\<close> of \<open>k\<close> finds memory for its buffer,
  that call returns \<open>v\<close> cut at its first byte 0; it returns exactly \<open>v\<close> when \<open>v\<close>
  has no byte 0.
\<close>

theorem setenv_then_getenv:
  assumes "args 0 = Lisp_string k" and "args 1 = Lisp_string v"
    and "posacs_setenv n args ptr s = (Lisp_symbol ''t'', s')"
    and "args' 0 = Lisp_string k" and "next_ok (malloc_plan s')"
  shows "fst (posacs_getenv n' args' ptr' s') = Lisp_string (c_str v) \<and>
         (NUL \<notin> set v \<longrightarrow> fst (posacs_getenv n' args' ptr' s') = Lisp_string v)"
proof -
  from posacs_setenv_t [OF assms(3,1,2)]
  have idle: "pending s' = None" and name: "valid_name (c_str k)"
    and env: "environ s' = env_store (c_str k) (c_str v) (environ s)"
    by simp_all
  have "env_value (environ s') (c_str k) = Some (c_str v)"
    using name by (simp add: env env_value_store valid_name_def)
  then have "fst (posacs_getenv n' args' ptr' s') = Lisp_string (c_str v)"
    using getenv_after_binding [of s' args' k v n' ptr'] idle assms(4,5) by simp
  then show ?thesis by (simp add: c_str_no_NUL)
qed

text \<open>
  The theorem at \<^verbatim>\<open>FOO\<close> and \<^verbatim>\<open>bar\<close>: the call of \<^verbatim>\<open>posacs--setenv\<close> returns
  \<^verbatim>\<open>t\<close>, and \<^verbatim>\<open>posacs--getenv\<close> then returns \<^verbatim>\<open>bar\<close>.
\<close>

theorem setenv_then_getenv_witness:
  "posacs_setenv 2 (args2 (Lisp_string ''FOO'') (Lisp_string ''bar'')) 0 world0 =
     (Lisp_symbol ''t'',
      world0\<lparr>environ := [''HOME=/root'', ''FOO=bar''],
        heap := [(2, ''bar'' @ [NUL]), (1, ''FOO'' @ [NUL])],
        next_addr := 3\<rparr>) \<and>
   fst (posacs_getenv 1 (args1 (Lisp_string ''FOO'')) 0
     (world0\<lparr>environ := [''HOME=/root'', ''FOO=bar''],
        heap := [(2, ''bar'' @ [NUL]), (1, ''FOO'' @ [NUL])],
        next_addr := 3\<rparr>)) = Lisp_string ''bar''"
proof -
  let ?a = "args2 (Lisp_string ''FOO'') (Lisp_string ''bar'')"
  let ?w = "world0\<lparr>environ := [''HOME=/root'', ''FOO=bar''],
        heap := [(2, ''bar'' @ [NUL]), (1, ''FOO'' @ [NUL])], next_addr := 3\<rparr>"
  have a0: "?a 0 = Lisp_string ''FOO''" and a1: "?a 1 = Lisp_string ''bar''"
    by (simp_all add: args2_def)
  have call: "posacs_setenv 2 ?a 0 world0 = (Lisp_symbol ''t'', ?w)"
    by (simp add: eval_defs)
  have b0: "args1 (Lisp_string ''FOO'') 0 = Lisp_string ''FOO''"
    by (simp add: args1_def)
  have mem: "next_ok (malloc_plan ?w)"
    by (simp add: world0_def next_ok_def)
  have nul: "NUL \<notin> set ''bar''"
    by (simp add: NUL_def)
  from setenv_then_getenv [where args = ?a and k = "''FOO''" and v = "''bar''" and n = 2
      and ptr = 0 and s = world0 and s' = ?w and args' = "args1 (Lisp_string ''FOO'')"
      and n' = 1 and ptr' = 0] a0 a1 call b0 mem nul
  show ?thesis by (simp add: c_str_def NUL_def)
qed

text \<open>
  C2 as the specification states it fails twice. Setting \<^verbatim>\<open>FOO\<close> to the three bytes
  \<^verbatim>\<open>a\<close>, 0, \<^verbatim>\<open>b\<close> succeeds, and reading it back gives \<^verbatim>\<open>a\<close>. And when the third
  allocation of the process fails, setting \<^verbatim>\<open>FOO\<close> to \<^verbatim>\<open>bar\<close> succeeds and reading
  it back returns \<^verbatim>\<open>nil\<close>.
\<close>

theorem setenv_then_getenv_counterexample:
  "fst (posacs_setenv 2 (args2 (Lisp_string ''FOO'') (Lisp_string [CHR ''a'', NUL, CHR ''b''])) 0
          world0) = Lisp_symbol ''t'' \<and>
   fst (posacs_getenv 1 (args1 (Lisp_string ''FOO'')) 0
          (snd (posacs_setenv 2
             (args2 (Lisp_string ''FOO'') (Lisp_string [CHR ''a'', NUL, CHR ''b''])) 0 world0)))
     = Lisp_string ''a'' \<and>
   Lisp_string ''a'' \<noteq> Lisp_string [CHR ''a'', NUL, CHR ''b''] \<and>
   fst (posacs_setenv 2 (args2 (Lisp_string ''FOO'') (Lisp_string ''bar'')) 0
          (world0\<lparr>malloc_plan := [True, True, False]\<rparr>)) = Lisp_symbol ''t'' \<and>
   fst (posacs_getenv 1 (args1 (Lisp_string ''FOO'')) 0
          (snd (posacs_setenv 2 (args2 (Lisp_string ''FOO'') (Lisp_string ''bar'')) 0
             (world0\<lparr>malloc_plan := [True, True, False]\<rparr>))))
     = Lisp_symbol ''nil''"
  by (simp add: eval_defs)

text \<open>
  C3, as amended. Let \<^verbatim>\<open>posacs--setenv\<close> be called with \<open>k\<close> and \<open>v1\<close>, and then with
  \<open>k\<close> and \<open>v2\<close>. When the second call returns \<^verbatim>\<open>t\<close>, the environment holds \<open>v2\<close>
  (cut at its first byte 0) for \<open>k\<close> (cut likewise), whatever the first call did and
  whatever was there before; and \<^verbatim>\<open>posacs--getenv\<close> of \<open>k\<close> returns it when it finds memory
  for its buffer, which is exactly \<open>v2\<close> when \<open>v2\<close> has no byte 0.
\<close>

theorem setenv_overwrites:
  assumes "a1 0 = Lisp_string k" and "a1 1 = Lisp_string v1"
    and "a2 0 = Lisp_string k" and "a2 1 = Lisp_string v2"
    and "posacs_setenv n2 a2 p2 (snd (posacs_setenv n1 a1 p1 s)) = (Lisp_symbol ''t'', s2)"
    and "a3 0 = Lisp_string k" and "next_ok (malloc_plan s2)"
  shows "env_value (environ s2) (c_str k) = Some (c_str v2) \<and>
         fst (posacs_getenv n3 a3 p3 s2) = Lisp_string (c_str v2) \<and>
         (NUL \<notin> set v2 \<longrightarrow> fst (posacs_getenv n3 a3 p3 s2) = Lisp_string v2)"
proof -
  from posacs_setenv_t [OF assms(5,3,4)]
  have idle: "pending s2 = None" and name: "valid_name (c_str k)"
    and env: "environ s2 =
      env_store (c_str k) (c_str v2) (environ (snd (posacs_setenv n1 a1 p1 s)))"
    by simp_all
  have bound: "env_value (environ s2) (c_str k) = Some (c_str v2)"
    using name by (simp add: env env_value_store valid_name_def)
  then have "fst (posacs_getenv n3 a3 p3 s2) = Lisp_string (c_str v2)"
    using getenv_after_binding [of s2 a3 k v2 n3 p3] idle assms(6,7) by simp
  with bound show ?thesis by (simp add: c_str_no_NUL)
qed

text \<open>
  The theorem at \<^verbatim>\<open>HOME\<close>, which is bound at the start, set to \<^verbatim>\<open>/home\<close> and then to
  \<^verbatim>\<open>/tmp\<close>.
\<close>

theorem setenv_overwrites_witness:
  "posacs_setenv 2 (args2 (Lisp_string ''HOME'') (Lisp_string ''/tmp'')) 0
     (snd (posacs_setenv 2 (args2 (Lisp_string ''HOME'') (Lisp_string ''/home'')) 0 world0)) =
     (Lisp_symbol ''t'',
      world0\<lparr>environ := [''HOME=/tmp''],
        heap := [(4, ''/tmp'' @ [NUL]), (3, ''HOME'' @ [NUL]), (2, ''/home'' @ [NUL]),
                 (1, ''HOME'' @ [NUL])],
        next_addr := 5\<rparr>) \<and>
   env_value [''HOME=/tmp''] ''HOME'' = Some ''/tmp'' \<and>
   fst (posacs_getenv 1 (args1 (Lisp_string ''HOME'')) 0
     (world0\<lparr>environ := [''HOME=/tmp''],
        heap := [(4, ''/tmp'' @ [NUL]), (3, ''HOME'' @ [NUL]), (2, ''/home'' @ [NUL]),
                 (1, ''HOME'' @ [NUL])],
        next_addr := 5\<rparr>)) = Lisp_string ''/tmp''"
proof -
  let ?a1 = "args2 (Lisp_string ''HOME'') (Lisp_string ''/home'')"
  let ?a2 = "args2 (Lisp_string ''HOME'') (Lisp_string ''/tmp'')"
  let ?a3 = "args1 (Lisp_string ''HOME'')"
  let ?w = "world0\<lparr>environ := [''HOME=/tmp''],
        heap := [(4, ''/tmp'' @ [NUL]), (3, ''HOME'' @ [NUL]), (2, ''/home'' @ [NUL]),
                 (1, ''HOME'' @ [NUL])],
        next_addr := 5\<rparr>"
  have a: "?a1 0 = Lisp_string ''HOME''" "?a1 1 = Lisp_string ''/home''"
    "?a2 0 = Lisp_string ''HOME''" "?a2 1 = Lisp_string ''/tmp''"
    "?a3 0 = Lisp_string ''HOME''"
    by (simp_all add: args1_def args2_def)
  have calls: "posacs_setenv 2 ?a2 0 (snd (posacs_setenv 2 ?a1 0 world0)) =
      (Lisp_symbol ''t'', ?w)"
    by (simp add: eval_defs)
  have mem: "next_ok (malloc_plan ?w)"
    by (simp add: world0_def next_ok_def)
  have nul: "NUL \<notin> set ''/tmp''"
    by (simp add: NUL_def)
  from setenv_overwrites [where ?a1.0 = ?a1 and ?a2.0 = ?a2 and ?a3.0 = ?a3
      and k = "''HOME''" and ?v1.0 = "''/home''" and ?v2.0 = "''/tmp''"
      and ?n1.0 = 2 and ?n2.0 = 2 and ?n3.0 = 1 and ?p1.0 = 0 and ?p2.0 = 0 and ?p3.0 = 0
      and s = world0 and ?s2.0 = ?w] a calls mem nul
  show ?thesis by (simp add: c_str_def NUL_def world0_def)
qed

text \<open>
  C3 as the specification states it fails three times. With the empty string as name
  both calls of \<^verbatim>\<open>posacs--setenv\<close> fail, and \<^verbatim>\<open>posacs--getenv\<close> returns \<^verbatim>\<open>nil\<close>. With the
  second value \<^verbatim>\<open>b\<close>, 0, \<^verbatim>\<open>c\<close> the variable reads back as \<^verbatim>\<open>b\<close>. And when the fifth
  allocation of the process fails, both calls succeed and \<^verbatim>\<open>posacs--getenv\<close> returns
  \<^verbatim>\<open>nil\<close>.
\<close>

theorem setenv_overwrites_counterexample:
  "fst (posacs_getenv 1 (args1 (Lisp_string '''')) 0
          (snd (posacs_setenv 2 (args2 (Lisp_string '''') (Lisp_string ''b'')) 0
             (snd (posacs_setenv 2 (args2 (Lisp_string '''') (Lisp_string ''a'')) 0 world0)))))
     = Lisp_symbol ''nil'' \<and>
   Lisp_symbol ''nil'' \<noteq> Lisp_string ''b'' \<and>
   fst (posacs_getenv 1 (args1 (Lisp_string ''FOO'')) 0
          (snd (posacs_setenv 2
             (args2 (Lisp_string ''FOO'') (Lisp_string [CHR ''b'', NUL, CHR ''c''])) 0
             (snd (posacs_setenv 2 (args2 (Lisp_string ''FOO'') (Lisp_string ''a'')) 0
                world0)))))
     = Lisp_string ''b'' \<and>
   Lisp_string ''b'' \<noteq> Lisp_string [CHR ''b'', NUL, CHR ''c''] \<and>
   fst (posacs_getenv 1 (args1 (Lisp_string ''FOO'')) 0
          (snd (posacs_setenv 2 (args2 (Lisp_string ''FOO'') (Lisp_string ''b'')) 0
             (snd (posacs_setenv 2 (args2 (Lisp_string ''FOO'') (Lisp_string ''a'')) 0
                (world0\<lparr>malloc_plan := [True, True, True, True, False]\<rparr>))))))
     = Lisp_symbol ''nil''"
  by (simp add: eval_defs)

section \<open>Unset variables\<close>

lemma getenv_unbound:
  assumes "pending s = None" and "args 0 = Lisp_string k"
    and "env_value (environ s) (c_str k) = None"
  shows "fst (posacs_getenv n args ptr s) = Lisp_symbol ''nil''"
proof (cases "next_ok (malloc_plan s)")
  case True
  with assms show ?thesis by (simp add: posacs_getenv_string)
next
  case False
  with assms show ?thesis by (simp add: posacs_getenv_nomem)
qed

lemma env_value_unnamed:
  "CHR ''='' \<notin> set nm \<Longrightarrow> \<not> names_variable env nm \<Longrightarrow> env_value env nm = None"
  by (simp add: env_value_def env_search_unnamed)

lemma unsetenv_unbinds:
  assumes "pending s = None" and "args 0 = Lisp_string k" and "CHR ''='' \<notin> set (c_str k)"
    and "pending (snd (posacs_unsetenv n args ptr s)) = None"
  shows "env_value (environ (snd (posacs_unsetenv n args ptr s))) (c_str k) = None"
proof -
  have ok: "next_ok (malloc_plan s)"
  proof (rule ccontr)
    assume "\<not> next_ok (malloc_plan s)"
    with posacs_unsetenv_nomem [of s args k n ptr] assms(1,2,4)
    show False by simp
  qed
  show ?thesis
  proof (cases "valid_name (c_str k)")
    case True
    with posacs_unsetenv_string [of s args k n ptr] assms(1,2) ok
    show ?thesis by (simp add: env_value_def env_search_removed)
  next
    case False
    with assms(3) have "c_str k = []"
      by (simp add: valid_name_def)
    then show ?thesis by (simp add: env_value_def)
  qed
qed

text \<open>
  C4, as amended. The host calls with no exit pending, and the C string of \<open>k\<close> (its
  bytes before the first 0) contains no \<open>=\<close>. First part: when that C string is not the
  name of a variable, \<^verbatim>\<open>posacs--getenv\<close> of \<open>k\<close> returns \<^verbatim>\<open>nil\<close>. Second part: when
  \<^verbatim>\<open>posacs--unsetenv\<close> of \<open>k\<close> returns without having raised \<^verbatim>\<open>memory-full\<close>, a
  following \<^verbatim>\<open>posacs--getenv\<close> of \<open>k\<close> returns \<^verbatim>\<open>nil\<close>, whatever \<open>k\<close> was bound to.
\<close>

theorem getenv_of_unbound_is_nil:
  "(pending s = None \<and> args 0 = Lisp_string k \<and> CHR ''='' \<notin> set (c_str k) \<and>
    \<not> names_variable (environ s) (c_str k) \<longrightarrow>
      fst (posacs_getenv n args ptr s) = Lisp_symbol ''nil'') \<and>
   (pending s = None \<and> args 0 = Lisp_string k \<and> CHR ''='' \<notin> set (c_str k) \<and>
    pending (snd (posacs_unsetenv n args ptr s)) = None \<longrightarrow>
      fst (posacs_getenv n' args ptr' (snd (posacs_unsetenv n args ptr s))) =
        Lisp_symbol ''nil'')"
proof (rule conjI; rule impI)
  assume "pending s = None \<and> args 0 = Lisp_string k \<and> CHR ''='' \<notin> set (c_str k) \<and>
    \<not> names_variable (environ s) (c_str k)"
  then show "fst (posacs_getenv n args ptr s) = Lisp_symbol ''nil''"
    by (simp add: getenv_unbound env_value_unnamed)
next
  assume h: "pending s = None \<and> args 0 = Lisp_string k \<and> CHR ''='' \<notin> set (c_str k) \<and>
    pending (snd (posacs_unsetenv n args ptr s)) = None"
  then have "env_value (environ (snd (posacs_unsetenv n args ptr s))) (c_str k) = None"
    by (simp add: unsetenv_unbinds)
  with h show "fst (posacs_getenv n' args ptr' (snd (posacs_unsetenv n args ptr s))) =
      Lisp_symbol ''nil''"
    by (simp add: getenv_unbound)
qed

text \<open>
  The theorem in a process where \<^verbatim>\<open>HOME\<close> is bound and \<^verbatim>\<open>SHELL\<close> is not.
\<close>

theorem getenv_of_unbound_is_nil_witness:
  "pending world0 = None \<and>
   args1 (Lisp_string ''HOME'') 0 = Lisp_string ''HOME'' \<and>
   args1 (Lisp_string ''SHELL'') 0 = Lisp_string ''SHELL'' \<and>
   CHR ''='' \<notin> set (c_str ''SHELL'') \<and> CHR ''='' \<notin> set (c_str ''HOME'') \<and>
   \<not> names_variable (environ world0) (c_str ''SHELL'') \<and>
   fst (posacs_getenv 1 (args1 (Lisp_string ''SHELL'')) 0 world0) = Lisp_symbol ''nil'' \<and>
   names_variable (environ world0) (c_str ''HOME'') \<and>
   posacs_unsetenv 1 (args1 (Lisp_string ''HOME'')) 0 world0 =
     (Lisp_symbol ''t'',
      world0\<lparr>environ := [], heap := [(1, ''HOME'' @ [NUL])], next_addr := 2\<rparr>) \<and>
   fst (posacs_getenv 1 (args1 (Lisp_string ''HOME'')) 0
          (snd (posacs_unsetenv 1 (args1 (Lisp_string ''HOME'')) 0 world0))) =
     Lisp_symbol ''nil''"
proof -
  have pre: "pending world0 = None"
    "args1 (Lisp_string ''HOME'') 0 = Lisp_string ''HOME''"
    "args1 (Lisp_string ''SHELL'') 0 = Lisp_string ''SHELL''"
    "CHR ''='' \<notin> set (c_str ''SHELL'')" "CHR ''='' \<notin> set (c_str ''HOME'')"
    "\<not> names_variable (environ world0) (c_str ''SHELL'')"
    "names_variable (environ world0) (c_str ''HOME'')"
    by (simp_all add: eval_defs)
  have call: "posacs_unsetenv 1 (args1 (Lisp_string ''HOME'')) 0 world0 =
     (Lisp_symbol ''t'',
      world0\<lparr>environ := [], heap := [(1, ''HOME'' @ [NUL])], next_addr := 2\<rparr>)"
    by (simp add: eval_defs)
  then have quiet:
    "pending (snd (posacs_unsetenv 1 (args1 (Lisp_string ''HOME'')) 0 world0)) = None"
    by (simp add: world0_def)
  from getenv_of_unbound_is_nil [of world0 "args1 (Lisp_string ''SHELL'')" "''SHELL''" 1 0 1 0]
    pre
  have one: "fst (posacs_getenv 1 (args1 (Lisp_string ''SHELL'')) 0 world0) = Lisp_symbol ''nil''"
    by blast
  from getenv_of_unbound_is_nil [of world0 "args1 (Lisp_string ''HOME'')" "''HOME''" 1 0 1 0]
    pre quiet
  have two: "fst (posacs_getenv 1 (args1 (Lisp_string ''HOME'')) 0
          (snd (posacs_unsetenv 1 (args1 (Lisp_string ''HOME'')) 0 world0))) =
     Lisp_symbol ''nil''"
    by blast
  from pre call one two show ?thesis by simp
qed

text \<open>
  C4 as the specification states it fails three times. No variable has the seven bytes
  \<^verbatim>\<open>HOME\<close>, 0, \<^verbatim>\<open>x\<close> as its name, and \<^verbatim>\<open>posacs--getenv\<close> of that string returns the value
  of \<^verbatim>\<open>HOME\<close>. When the allocation in \<^verbatim>\<open>posacs--unsetenv\<close> of \<^verbatim>\<open>HOME\<close> fails, the call
  raises \<^verbatim>\<open>memory-full\<close> and leaves the variable; once the host has taken the exit,
  \<^verbatim>\<open>posacs--getenv\<close> of \<^verbatim>\<open>HOME\<close> still returns its value. And after the module itself
  has set \<^verbatim>\<open>A\<close> to \<^verbatim>\<open>B=c\<close>, no variable is named \<^verbatim>\<open>A=B\<close>, yet \<^verbatim>\<open>posacs--getenv\<close> of
  \<^verbatim>\<open>A=B\<close> returns \<^verbatim>\<open>c\<close>; \<^verbatim>\<open>posacs--unsetenv\<close> of \<^verbatim>\<open>A=B\<close> returns \<^verbatim>\<open>nil\<close>, raises
  nothing and removes nothing, and \<^verbatim>\<open>posacs--getenv\<close> of \<^verbatim>\<open>A=B\<close> returns \<^verbatim>\<open>c\<close> again.
\<close>

theorem getenv_of_unbound_is_nil_counterexample:
  "\<not> names_variable (environ world0) (''HOME'' @ [NUL, CHR ''x'']) \<and>
   fst (posacs_getenv 1 (args1 (Lisp_string (''HOME'' @ [NUL, CHR ''x'']))) 0 world0) =
     Lisp_string ''/root'' \<and>
   posacs_unsetenv 1 (args1 (Lisp_string ''HOME'')) 0 (world0\<lparr>malloc_plan := [False]\<rparr>) =
     (Lisp_symbol ''nil'', world0\<lparr>pending := memory_full\<rparr>) \<and>
   fst (posacs_getenv 1 (args1 (Lisp_string ''HOME'')) 0
          (host_takes_exit
             (snd (posacs_unsetenv 1 (args1 (Lisp_string ''HOME'')) 0
                (world0\<lparr>malloc_plan := [False]\<rparr>))))) =
     Lisp_string ''/root'' \<and>
   posacs_setenv 2 (args2 (Lisp_string ''A'') (Lisp_string ''B=c'')) 0 world0 =
     (Lisp_symbol ''t'',
      world0\<lparr>environ := [''HOME=/root'', ''A=B=c''],
        heap := [(2, ''B=c'' @ [NUL]), (1, ''A'' @ [NUL])], next_addr := 3\<rparr>) \<and>
   \<not> names_variable [''HOME=/root'', ''A=B=c''] ''A=B'' \<and>
   fst (posacs_getenv 1 (args1 (Lisp_string ''A=B'')) 0
          (snd (posacs_setenv 2 (args2 (Lisp_string ''A'') (Lisp_string ''B=c'')) 0 world0))) =
     Lisp_string ''c'' \<and>
   fst (posacs_unsetenv 1 (args1 (Lisp_string ''A=B'')) 0
          (snd (posacs_setenv 2 (args2 (Lisp_string ''A'') (Lisp_string ''B=c'')) 0 world0))) =
     Lisp_symbol ''nil'' \<and>
   pending (snd (posacs_unsetenv 1 (args1 (Lisp_string ''A=B'')) 0
          (snd (posacs_setenv 2 (args2 (Lisp_string ''A'') (Lisp_string ''B=c'')) 0 world0)))) =
     None \<and>
   fst (posacs_getenv 1 (args1 (Lisp_string ''A=B'')) 0
          (snd (posacs_unsetenv 1 (args1 (Lisp_string ''A=B'')) 0
             (snd (posacs_setenv 2 (args2 (Lisp_string ''A'') (Lisp_string ''B=c'')) 0
                world0))))) =
     Lisp_string ''c''"
  by (simp add: eval_defs memory_full_def)

section \<open>Arguments that are not strings\<close>

text \<open>
  C5. The host calls with no exit pending. When the argument of \<^verbatim>\<open>posacs--getenv\<close> is not
  a string, the call returns \<^verbatim>\<open>nil\<close> and leaves the whole state as it was: it raises
  nothing, allocates nothing and reads no variable.
\<close>

theorem getenv_non_string:
  "pending s = None \<Longrightarrow> \<not> is_string (args 0) \<Longrightarrow>
   posacs_getenv n args ptr s = (Lisp_symbol ''nil'', s)"
  by (rule posacs_getenv_not_string)

text \<open>
  The theorem at the integer 42 and at \<^verbatim>\<open>nil\<close>.
\<close>

theorem getenv_non_string_witness:
  "pending world0 = None \<and> \<not> is_string (args1 (Lisp_integer 42) 0) \<and>
   \<not> is_string (args1 (Lisp_symbol ''nil'') 0) \<and>
   posacs_getenv 1 (args1 (Lisp_integer 42)) 0 world0 = (Lisp_symbol ''nil'', world0) \<and>
   posacs_getenv 1 (args1 (Lisp_symbol ''nil'')) 0 world0 = (Lisp_symbol ''nil'', world0)"
proof -
  have pre: "pending world0 = None" "\<not> is_string (args1 (Lisp_integer 42) 0)"
    "\<not> is_string (args1 (Lisp_symbol ''nil'') 0)"
    by (simp_all add: world0_def args1_def is_string_def)
  from pre getenv_non_string [of world0 "args1 (Lisp_integer 42)" 1 0]
    getenv_non_string [of world0 "args1 (Lisp_symbol ''nil'')" 1 0]
  show ?thesis by simp
qed

text \<open>
  C6. The host calls with no exit pending. When the first or the second argument of
  \<^verbatim>\<open>posacs--setenv\<close> is not a string, the call returns \<^verbatim>\<open>nil\<close> and the environment is the
  one before the call.
\<close>

theorem setenv_non_string:
  assumes "pending s = None" and "\<not> is_string (args 0) \<or> \<not> is_string (args 1)"
  shows "fst (posacs_setenv n args ptr s) = Lisp_symbol ''nil'' \<and>
         environ (snd (posacs_setenv n args ptr s)) = environ s"
proof (cases "is_string (args 0)")
  case False
  with assms(1) show ?thesis by (simp add: posacs_setenv_not_string)
next
  case True
  then obtain k where k: "args 0 = Lisp_string k"
    by (auto simp: is_string_iff)
  from True assms(2) have second: "\<not> is_string (args 1)" by simp
  show ?thesis
  proof (cases "next_ok (malloc_plan s)")
    case True
    with posacs_setenv_second_not_string [of s args k n ptr] assms(1) k second
    show ?thesis by simp
  next
    case False
    with posacs_setenv_nomem [of s args k n ptr] assms(1) k
    show ?thesis by simp
  qed
qed

text \<open>
  The theorem at a first argument that is an integer, and at a second argument that is
  \<^verbatim>\<open>nil\<close>.
\<close>

theorem setenv_non_string_witness:
  "pending world0 = None \<and>
   posacs_setenv 2 (args2 (Lisp_integer 1) (Lisp_string ''bar'')) 0 world0 =
     (Lisp_symbol ''nil'', world0) \<and>
   fst (posacs_setenv 2 (args2 (Lisp_string ''FOO'') (Lisp_symbol ''nil'')) 0 world0) =
     Lisp_symbol ''nil'' \<and>
   environ (snd (posacs_setenv 2 (args2 (Lisp_string ''FOO'') (Lisp_symbol ''nil'')) 0 world0)) =
     [''HOME=/root'']"
proof -
  have idle: "pending world0 = None"
    by (simp add: world0_def)
  have first: "\<not> is_string (args2 (Lisp_integer 1) (Lisp_string ''bar'') 0)"
    and second: "\<not> is_string (args2 (Lisp_string ''FOO'') (Lisp_symbol ''nil'') 1)"
    by (simp_all add: args2_def is_string_def)
  have whole: "posacs_setenv 2 (args2 (Lisp_integer 1) (Lisp_string ''bar'')) 0 world0 =
     (Lisp_symbol ''nil'', world0)"
    by (simp add: eval_defs)
  from setenv_non_string [of world0 "args2 (Lisp_string ''FOO'') (Lisp_symbol ''nil'')" 2 0]
    idle second whole
  show ?thesis by (simp add: world0_def)
qed

section \<open>Raised conditions of the module functions\<close>








section \<open>Registration at load time\<close>

lemma bind_func_idle:
  "pending s = None \<Longrightarrow> 0 \<le> mn \<Longrightarrow> mn \<le> mx \<Longrightarrow>
   bind_func nm mn mx f doc s =
     s\<lparr>fdefs := AList.update nm (Lisp_function mn mx f doc) (fdefs s)\<rparr>"
  by (simp add: bind_func_def LISP_SYM_def env_intern_def env_make_function_def env_funcall_def)

lemma bind_loop_funcs:
  "pending s = None \<Longrightarrow>
   bind_loop funcs s =
     s\<lparr>fdefs :=
         AList.update ''posacs--unsetenv''
           (Lisp_function 1 1 (Some Posacs_unsetenv) (Some ''unsetenv internal''))
           (AList.update ''posacs--setenv''
              (Lisp_function 2 2 (Some Posacs_setenv) (Some ''setenv internal''))
              (AList.update ''posacs--getenv''
                 (Lisp_function 1 1 (Some Posacs_getenv) (Some ''getenv internal'')) (fdefs s)))\<rparr>"
  by (simp add: funcs_def bind_func_idle)

text \<open>
  C8. The host calls with no exit pending. \<^verbatim>\<open>emacs_module_init\<close> returns 1 and does
  nothing when the size of the runtime structure is below the expected one; otherwise it
  returns 2 and does nothing when the size of the environment structure is below the
  expected one; otherwise it returns 0, and the state differs in the function
  definitions of three symbols only: \<^verbatim>\<open>posacs--getenv\<close> with both arities 1,
  \<^verbatim>\<open>posacs--setenv\<close> with both arities 2 and \<^verbatim>\<open>posacs--unsetenv\<close> with both arities 1.
  The sizes are compared as the code compares them, without sign.
\<close>

theorem module_init:
  assumes "pending s = None"
  shows "emacs_module_init sizeof_runtime sizeof_env runtime s =
     (if rt_size runtime < sizeof_runtime then (1, s)
      else if env_size (get_environment runtime) < sizeof_env then (2, s)
      else (0,
        s\<lparr>fdefs :=
            AList.update ''posacs--unsetenv''
              (Lisp_function 1 1 (Some Posacs_unsetenv) (Some ''unsetenv internal''))
              (AList.update ''posacs--setenv''
                 (Lisp_function 2 2 (Some Posacs_setenv) (Some ''setenv internal''))
                 (AList.update ''posacs--getenv''
                    (Lisp_function 1 1 (Some Posacs_getenv) (Some ''getenv internal'')) (fdefs s)))\<rparr>))"
  using assms by (simp add: emacs_module_init_def bind_loop_funcs)

text \<open>
  The theorem at a runtime structure that is too small, at an environment structure
  that is too small, and at two that are large enough.
\<close>

theorem module_init_witness:
  "pending world0 = None \<and>
   emacs_module_init 24 320 \<lparr>rt_size = 16, get_environment = \<lparr>env_size = 400\<rparr>\<rparr> world0 =
     (1, world0) \<and>
   emacs_module_init 24 320 \<lparr>rt_size = 24, get_environment = \<lparr>env_size = 64\<rparr>\<rparr> world0 =
     (2, world0) \<and>
   emacs_module_init 24 320 \<lparr>rt_size = 24, get_environment = \<lparr>env_size = 400\<rparr>\<rparr> world0 =
     (0, world0\<lparr>fdefs :=
        [(''posacs--getenv'', Lisp_function 1 1 (Some Posacs_getenv) (Some ''getenv internal'')),
         (''posacs--setenv'', Lisp_function 2 2 (Some Posacs_setenv) (Some ''setenv internal'')),
         (''posacs--unsetenv'', Lisp_function 1 1 (Some Posacs_unsetenv) (Some ''unsetenv internal''))]\<rparr>)"
proof -
  have idle: "pending world0 = None"
    by (simp add: world0_def)
  from idle
    module_init [OF idle, of 24 320 "\<lparr>rt_size = 16, get_environment = \<lparr>env_size = 400\<rparr>\<rparr>"]
    module_init [OF idle, of 24 320 "\<lparr>rt_size = 24, get_environment = \<lparr>env_size = 64\<rparr>\<rparr>"]
    module_init [OF idle, of 24 320 "\<lparr>rt_size = 24, get_environment = \<lparr>env_size = 400\<rparr>\<rparr>"]
  show ?thesis by (simp add: world0_def)
qed

section \<open>Parameters that are not read\<close>

text \<open>
  C9. The three module functions are functions of the state and of the arguments they
  declare: two calls of \<^verbatim>\<open>posacs--getenv\<close> or of \<^verbatim>\<open>posacs--unsetenv\<close> in the same state
  that agree on \<^verbatim>\<open>args[0]\<close>, and two calls of \<^verbatim>\<open>posacs--setenv\<close> that agree on
  \<^verbatim>\<open>args[0]\<close> and \<^verbatim>\<open>args[1]\<close>, return the same value and leave the same state, whatever
  the argument counts, the data pointers and the other slots of the argument arrays
  are.
\<close>

theorem unused_parameters:
  "(args 0 = args' 0 \<longrightarrow>
      posacs_getenv n args ptr s = posacs_getenv n' args' ptr' s \<and>
      posacs_unsetenv n args ptr s = posacs_unsetenv n' args' ptr' s) \<and>
   (args 0 = args' 0 \<and> args 1 = args' 1 \<longrightarrow>
      posacs_setenv n args ptr s = posacs_setenv n' args' ptr' s)"
proof (rule conjI; rule impI)
  assume first: "args 0 = args' 0"
  show "posacs_getenv n args ptr s = posacs_getenv n' args' ptr' s \<and>
      posacs_unsetenv n args ptr s = posacs_unsetenv n' args' ptr' s"
    unfolding posacs_getenv_def posacs_unsetenv_def first by (rule conjI; rule refl)
next
  assume "args 0 = args' 0 \<and> args 1 = args' 1"
  then have first: "args 0 = args' 0" and second: "args 1 = args' 1"
    by simp_all
  show "posacs_setenv n args ptr s = posacs_setenv n' args' ptr' s"
    unfolding posacs_setenv_def first second by (rule refl)
qed

text \<open>
  The theorem at calls that differ in the count, in the data pointer and in the second
  slot of the array.
\<close>

theorem unused_parameters_witness:
  "args1 (Lisp_string ''HOME'') 0 = args2 (Lisp_string ''HOME'') (Lisp_integer 7) 0 \<and>
   posacs_getenv 1 (args1 (Lisp_string ''HOME'')) 0 world0 =
     posacs_getenv 5 (args2 (Lisp_string ''HOME'') (Lisp_integer 7)) 99 world0 \<and>
   posacs_unsetenv 1 (args1 (Lisp_string ''HOME'')) 0 world0 =
     posacs_unsetenv 5 (args2 (Lisp_string ''HOME'') (Lisp_integer 7)) 99 world0 \<and>
   posacs_setenv 2 (args2 (Lisp_string ''FOO'') (Lisp_string ''bar'')) 0 world0 =
     posacs_setenv (- 1) (args2 (Lisp_string ''FOO'') (Lisp_string ''bar'')) 99 world0 \<and>
   fst (posacs_getenv 1 (args1 (Lisp_string ''HOME'')) 0 world0) = Lisp_string ''/root''"
proof -
  have same: "args1 (Lisp_string ''HOME'') 0 = args2 (Lisp_string ''HOME'') (Lisp_integer 7) 0"
    by (simp add: args1_def args2_def)
  have val: "fst (posacs_getenv 1 (args1 (Lisp_string ''HOME'')) 0 world0) = Lisp_string ''/root''"
    by (simp add: eval_defs)
  from same val
    unused_parameters [of "args1 (Lisp_string ''HOME'')"
      "args2 (Lisp_string ''HOME'') (Lisp_integer 7)" 1 0 world0 5 99]
    unused_parameters [of "args2 (Lisp_string ''FOO'') (Lisp_string ''bar'')"
      "args2 (Lisp_string ''FOO'') (Lisp_string ''bar'')" 2 0 world0 "- 1" 99]
  show ?thesis by simp
qed

section \<open>The order in which posacs--setenv looks at its arguments\<close>

text \<open>
  C10. The host calls with no exit pending. When the first argument of
  \<^verbatim>\<open>posacs--setenv\<close> is a string and the allocation of its buffer fails, the call raises
  \<^verbatim>\<open>memory-full\<close> and returns \<^verbatim>\<open>nil\<close>, whatever the second argument is: the second
  argument is not looked at. When the first argument is not a string, the call returns
  \<^verbatim>\<open>nil\<close> and leaves the whole state as it was, so nothing was allocated.
\<close>

theorem setenv_argument_order:
  assumes "pending s = None"
  shows "(is_string (args 0) \<and> \<not> next_ok (malloc_plan s) \<longrightarrow>
            posacs_setenv n args ptr s =
              (Lisp_symbol ''nil'',
               s\<lparr>malloc_plan := tl (malloc_plan s),
                 pending := Some (Lisp_symbol ''memory-full'', Lisp_symbol ''nil'')\<rparr>)) \<and>
         (\<not> is_string (args 0) \<longrightarrow>
            posacs_setenv n args ptr s = (Lisp_symbol ''nil'', s))"
proof (intro conjI impI)
  assume h: "is_string (args 0) \<and> \<not> next_ok (malloc_plan s)"
  then obtain k where k: "args 0 = Lisp_string k"
    by (auto simp: is_string_iff)
  with posacs_setenv_nomem [of s args k n ptr] assms h
  show "posacs_setenv n args ptr s =
      (Lisp_symbol ''nil'',
       s\<lparr>malloc_plan := tl (malloc_plan s),
         pending := Some (Lisp_symbol ''memory-full'', Lisp_symbol ''nil'')\<rparr>)"
    by simp
next
  assume "\<not> is_string (args 0)"
  with assms show "posacs_setenv n args ptr s = (Lisp_symbol ''nil'', s)"
    by (simp add: posacs_setenv_not_string)
qed

text \<open>
  The theorem where the first allocation is due to fail: with a string and an integer
  the call raises \<^verbatim>\<open>memory-full\<close>; with an integer and a string it returns \<^verbatim>\<open>nil\<close> and
  the failing allocation is still ahead.
\<close>

theorem setenv_argument_order_witness:
  "pending (world0\<lparr>malloc_plan := [False]\<rparr>) = None \<and>
   is_string (args2 (Lisp_string ''FOO'') (Lisp_integer 7) 0) \<and>
   \<not> is_string (args2 (Lisp_string ''FOO'') (Lisp_integer 7) 1) \<and>
   \<not> next_ok (malloc_plan (world0\<lparr>malloc_plan := [False]\<rparr>)) \<and>
   posacs_setenv 2 (args2 (Lisp_string ''FOO'') (Lisp_integer 7)) 0
       (world0\<lparr>malloc_plan := [False]\<rparr>) =
     (Lisp_symbol ''nil'',
      world0\<lparr>pending := Some (Lisp_symbol ''memory-full'', Lisp_symbol ''nil'')\<rparr>) \<and>
   \<not> is_string (args2 (Lisp_integer 7) (Lisp_string ''bar'') 0) \<and>
   posacs_setenv 2 (args2 (Lisp_integer 7) (Lisp_string ''bar'')) 0
       (world0\<lparr>malloc_plan := [False]\<rparr>) =
     (Lisp_symbol ''nil'', world0\<lparr>malloc_plan := [False]\<rparr>)"
proof -
  let ?w = "world0\<lparr>malloc_plan := [False]\<rparr>"
  have pre: "pending ?w = None" "\<not> next_ok (malloc_plan ?w)"
    "is_string (args2 (Lisp_string ''FOO'') (Lisp_integer 7) 0)"
    "\<not> is_string (args2 (Lisp_string ''FOO'') (Lisp_integer 7) 1)"
    "\<not> is_string (args2 (Lisp_integer 7) (Lisp_string ''bar'') 0)"
    by (simp_all add: world0_def next_ok_def args2_def is_string_def)
  from pre
    setenv_argument_order [of ?w "args2 (Lisp_string ''FOO'') (Lisp_integer 7)" 2 0]
    setenv_argument_order [of ?w "args2 (Lisp_integer 7) (Lisp_string ''bar'')" 2 0]
  show ?thesis by (simp add: world0_def)
qed

end
